theory Spec2Isabelle
  imports Complex_Main "HOL-Library.AList"
begin

section \<open>Values read from the feed\<close>

text \<open>
  Python floats are modelled by \<^typ>\<open>real\<close>: exact arithmetic, no NaN and no infinity.
  The properties below are about comparisons against fixed thresholds and about which
  branch is taken, not about rounding.

  A price or a quantity arrives as a JSON value, and the code only ever applies
  \<^verbatim>\<open>float()\<close> to it. A field is therefore modelled by what \<^verbatim>\<open>float()\<close> makes of it:
  \<open>Numeric x\<close> when it parses to \<open>x\<close>, \<open>Garbage\<close> for a string that is not a number
  (\<^verbatim>\<open>ValueError\<close>), \<open>Null\<close> for a value of the wrong type (\<^verbatim>\<open>TypeError\<close>).
  \<^verbatim>\<open>str(p)\<close> of a float \<open>p\<close> is the field \<open>Numeric p\<close> (\<^verbatim>\<open>float(str(p)) == p\<close>).
  A level is a pair of such fields, \<^verbatim>\<open>[price, qty]\<close>: the levels of the snapshot
  and of the dictionaries handed to the callback.
\<close>

datatype jvalue = Numeric real | Garbage | Null

datatype error = ValueError | TypeError | OverflowError | AttributeError

fun float :: "jvalue \<Rightarrow> error + real" where
  "float (Numeric x) = Inr x"
| "float Garbage = Inl ValueError"
| "float Null = Inl TypeError"

type_synonym level = "jvalue \<times> jvalue"

text \<open>
  A Python \<^verbatim>\<open>dict\<close> from price to quantity is an association list with distinct keys, in
  insertion order: \<^verbatim>\<open>d[k] = v\<close> is \<^const>\<open>AList.update\<close> (overwrite in place or append),
  \<^verbatim>\<open>d.pop(k, None)\<close> is \<^const>\<open>AList.delete\<close>, \<^verbatim>\<open>d.get(k)\<close> is \<^const>\<open>map_of\<close>.
\<close>

type_synonym side = "(real \<times> real) list"

record orderbook =
  bids :: side
  asks :: side

text \<open>\<^verbatim>\<open>self.orderbooks\<close>: symbol to order book.\<close>

type_synonym orderbooks = "string \<rightharpoonup> orderbook"

text \<open>
  A message of the depth stream is decoded JSON that nothing has looked at yet. A field
  of an entry is a value as above, or an integer literal beyond the range of a float, on
  which \<^verbatim>\<open>float()\<close> raises \<^verbatim>\<open>OverflowError\<close> (a string never does:
  \<^verbatim>\<open>float('1e999')\<close> is \<^verbatim>\<open>inf\<close>).
\<close>

datatype raw = Raw jvalue | HugeInt

fun float_raw :: "raw \<Rightarrow> error + real" where
  "float_raw (Raw v) = float v"
| "float_raw HugeInt = Inl OverflowError"

text \<open>
  An entry is a JSON array of fields, of any length, or a value that cannot be iterated
  (a number, \<^verbatim>\<open>null\<close>, a boolean). The value under \<^verbatim>\<open>bids\<close> or \<^verbatim>\<open>asks\<close> is a
  list of entries, or a value with no \<^verbatim>\<open>len()\<close>. The message is a dictionary, here
  after the key lookup of lines 199-200 (a missing key is the empty list), or some other
  JSON value, which has no \<^verbatim>\<open>get\<close>.
\<close>

datatype entry = Array "raw list" | NotIterable

datatype payload = Levels "entry list" | Unsized

record update_data =
  bids_data :: payload
  asks_data :: payload

datatype message = Update update_data | NotADict

text \<open>The dictionary handed to the callback: symbol, bids and asks as fields.\<close>

record orderbook_data =
  data_symbol :: string
  data_bids :: "level list"
  data_asks :: "level list"

section \<open>The order book of \<^verbatim>\<open>binance_client.py\<close>\<close>

text \<open>
  The header \<^verbatim>\<open>for price, qty in bids_data\<close> unpacks the entry before the \<^verbatim>\<open>try\<close>
  is entered: an array that does not have exactly two elements raises \<^verbatim>\<open>ValueError\<close>,
  a value that cannot be iterated raises \<^verbatim>\<open>TypeError\<close>, and neither is caught.
\<close>

fun unpack :: "entry \<Rightarrow> error + (raw \<times> raw)" where
  "unpack (Array [price, qty]) = Inr (price, qty)"
| "unpack (Array xs) = Inl ValueError"
| "unpack NotIterable = Inl TypeError"

text \<open>\<^verbatim>\<open>except (ValueError, TypeError)\<close> of lines 224 and 238.\<close>

definition caught :: "error \<Rightarrow> bool" where
  "caught err = (err = ValueError \<or> err = TypeError)"

text \<open>
  One iteration of one of the two loops of \<^verbatim>\<open>_update_orderbook\<close> (lines 214-225 and
  228-239). Both \<^verbatim>\<open>float()\<close> calls are inside the \<^verbatim>\<open>try\<close>; on an error that the
  \<^verbatim>\<open>except\<close> clause names the handler only logs and the loop goes on; any other error
  leaves the loop and the function.
\<close>

definition update_entry :: "side \<Rightarrow> entry \<Rightarrow> error + side" where
  "update_entry d e =
     (case unpack e of
        Inl err \<Rightarrow> Inl err
      | Inr (price, qty) \<Rightarrow>
          (case float_raw price of
             Inl err \<Rightarrow> if caught err then Inr d else Inl err
           | Inr price_f \<Rightarrow>
               (case float_raw qty of
                  Inl err \<Rightarrow> if caught err then Inr d else Inl err
                | Inr qty_f \<Rightarrow>
                    if qty_f = 0 then Inr (AList.delete price_f d)
                    else Inr (AList.update price_f qty_f d))))"

text \<open>
  A whole loop. The dictionary is changed in place, so when an error leaves the loop the
  entries before it stay applied: the result is the dictionary as it stands, and the
  error if there was one.
\<close>

fun update_side :: "side \<Rightarrow> entry list \<Rightarrow> side \<times> error option" where
  "update_side d [] = (d, None)"
| "update_side d (e # es) =
     (case update_entry d e of
        Inl err \<Rightarrow> (d, Some err)
      | Inr d' \<Rightarrow> update_side d' es)"

text \<open>
  \<^verbatim>\<open>_update_orderbook\<close> (lines 188-239): the store as the call leaves it, and the error
  it raises, if any. The book is created first (lines 190-191). \<^verbatim>\<open>update_data.get\<close>
  raises \<^verbatim>\<open>AttributeError\<close> on a message that is not a dictionary. The test of line
  203 takes \<^verbatim>\<open>len(bids_data)\<close>, and \<^verbatim>\<open>len(asks_data)\<close> only when the first is 0;
  the warning it guards only logs and is left out. Then the bids loop runs, then the asks
  loop, which raises \<^verbatim>\<open>TypeError\<close> on a value that cannot be iterated.
\<close>

definition update_orderbook ::
  "orderbooks \<Rightarrow> string \<Rightarrow> message \<Rightarrow> orderbooks \<times> error option" where
  "update_orderbook obs symbol msg =
     (let ob = (case obs symbol of None \<Rightarrow> \<lparr>bids = [], asks = []\<rparr> | Some ob \<Rightarrow> ob);
          obs1 = obs(symbol \<mapsto> ob)
      in case msg of
           NotADict \<Rightarrow> (obs1, Some AttributeError)
         | Update upd \<Rightarrow>
             (case bids_data upd of
                Unsized \<Rightarrow> (obs1, Some TypeError)
              | Levels bs \<Rightarrow>
                  if bs = [] \<and> asks_data upd = Unsized then (obs1, Some TypeError)
                  else
                    (case update_side (bids ob) bs of
                       (b, Some err) \<Rightarrow> (obs1(symbol \<mapsto> ob\<lparr>bids := b\<rparr>), Some err)
                     | (b, None) \<Rightarrow>
                         (case asks_data upd of
                            Unsized \<Rightarrow> (obs1(symbol \<mapsto> ob\<lparr>bids := b\<rparr>), Some TypeError)
                          | Levels as \<Rightarrow>
                              (case update_side (asks ob) as of
                                 (a, r) \<Rightarrow> (obs1(symbol \<mapsto> ob\<lparr>bids := b, asks := a\<rparr>), r))))))"

text \<open>
  The dict comprehension of lines 65 and 66,
  \<^verbatim>\<open>{float(price): float(qty) for price, qty in levels}\<close>: no \<^verbatim>\<open>try\<close> around it, so
  the first field that is not a number raises out of \<^verbatim>\<open>start\<close>.
\<close>

fun dict_of_levels :: "side \<Rightarrow> level list \<Rightarrow> error + side" where
  "dict_of_levels d [] = Inr d"
| "dict_of_levels d ((price, qty) # es) =
     (case float price of
        Inl e \<Rightarrow> Inl e
      | Inr price_f \<Rightarrow>
          (case float qty of
             Inl e \<Rightarrow> Inl e
           | Inr qty_f \<Rightarrow> dict_of_levels (AList.update price_f qty_f d) es))"

text \<open>
  The body of the first loop of \<^verbatim>\<open>start\<close> (lines 60-76) for one symbol. The argument
  is what \<^verbatim>\<open>_get_initial_snapshot\<close> returned: \<open>None\<close> when the request failed, otherwise
  the bids and asks of the reply (a dictionary of three keys, which is always truthy).
  The result is the store and the dictionary passed to the callback, if any.
\<close>

definition start_symbol ::
  "orderbooks \<Rightarrow> string \<Rightarrow> (level list \<times> level list) option
     \<Rightarrow> error + (orderbooks \<times> orderbook_data option)" where
  "start_symbol obs symbol snapshot =
     (case snapshot of
        None \<Rightarrow> Inr (obs, None)
      | Some (sbids, sasks) \<Rightarrow>
          (case dict_of_levels [] sbids of
             Inl e \<Rightarrow> Inl e
           | Inr b \<Rightarrow>
               (case dict_of_levels [] sasks of
                  Inl e \<Rightarrow> Inl e
                | Inr a \<Rightarrow>
                    Inr (obs(symbol \<mapsto> \<lparr>bids = b, asks = a\<rparr>),
                         Some \<lparr>data_symbol = symbol, data_bids = sbids, data_asks = sasks\<rparr>))))"

text \<open>Every quantity stored in the store is strictly positive.\<close>

definition side_positive :: "side \<Rightarrow> bool" where
  "side_positive d = list_all (\<lambda>(p, q). 0 < q) d"

definition book_positive :: "orderbooks \<Rightarrow> bool" where
  "book_positive obs =
     (\<forall>symbol ob. obs symbol = Some ob \<longrightarrow> side_positive (bids ob) \<and> side_positive (asks ob))"

text \<open>No entry carries a negative quantity.\<close>

definition quantity_not_negative :: "entry \<Rightarrow> bool" where
  "quantity_not_negative e =
     (case unpack e of
        Inl err \<Rightarrow> True
      | Inr (price, qty) \<Rightarrow> (case float_raw qty of Inl err \<Rightarrow> True | Inr q \<Rightarrow> 0 \<le> q))"

fun payload_not_negative :: "payload \<Rightarrow> bool" where
  "payload_not_negative (Levels es) = list_all quantity_not_negative es"
| "payload_not_negative Unsized = True"

text \<open>
  An entry the loops are written for: two fields, each a number or a value that
  \<^verbatim>\<open>float()\<close> rejects with one of the two errors the \<^verbatim>\<open>except\<close> clause names.
\<close>

fun plain :: "entry \<Rightarrow> bool" where
  "plain (Array [Raw price, Raw qty]) = True"
| "plain e = False"

text \<open>
  \<^verbatim>\<open>parse_orderbook_data\<close> (lines 247-272): \<^verbatim>\<open>not symbol\<close> holds of the empty string,
  \<^verbatim>\<open>not bids\<close> of the empty list.
\<close>

definition parse_orderbook_data :: "orderbook_data \<Rightarrow> orderbook_data option" where
  "parse_orderbook_data data =
     (if data_symbol data = [] \<or> data_bids data = [] \<or> data_asks data = [] then None
      else Some \<lparr>data_symbol = data_symbol data, data_bids = data_bids data,
                  data_asks = data_asks data\<rparr>)"

section \<open>Forwarding to the callback in \<^verbatim>\<open>binance_client.py\<close>\<close>

text \<open>
  The state of \<^verbatim>\<open>BinanceWebSocketClient\<close> that the message handler reads and writes.
\<close>

record client =
  orderbooks :: orderbooks
  last_sent_data :: "string \<rightharpoonup> orderbook_data"
  last_sent_time :: "string \<rightharpoonup> real"

text \<open>
  Lines 125-154 of \<^verbatim>\<open>on_message\<close>: whether \<^verbatim>\<open>current_data\<close> is sent to the callback.
  \<^verbatim>\<open>last_data\<close> is a dictionary of three keys, so \<^verbatim>\<open>if last_data:\<close> always holds when
  the symbol is in \<^verbatim>\<open>last_sent_data\<close>.
\<close>

definition should_send :: "client \<Rightarrow> string \<Rightarrow> orderbook_data \<Rightarrow> real \<Rightarrow> bool" where
  "should_send c symbol current_data current_time =
     (let last_time = (case last_sent_time c symbol of None \<Rightarrow> 0 | Some t \<Rightarrow> t);
          time_since_last = current_time - last_time
      in case last_sent_data c symbol of
           None \<Rightarrow> True
         | Some last_data \<Rightarrow>
             (let last_top_bids = take 10 (data_bids last_data);
                  last_top_asks = take 10 (data_asks last_data);
                  current_top_bids = take 10 (data_bids current_data);
                  current_top_asks = take 10 (data_asks current_data);
                  changed = (last_top_bids \<noteq> current_top_bids \<or> last_top_asks \<noteq> current_top_asks)
              in if \<not> changed \<and> time_since_last \<ge> 5 then True else changed))"

text \<open>
  Lines 125-160: the decision and, when it is to send, the two assignments that precede
  the call of the callback. The result says whether the callback is called.
\<close>

definition forward :: "client \<Rightarrow> string \<Rightarrow> orderbook_data \<Rightarrow> real \<Rightarrow> bool \<times> client" where
  "forward c symbol current_data current_time =
     (if should_send c symbol current_data current_time
      then (True, c\<lparr>last_sent_data := (last_sent_data c)(symbol \<mapsto> current_data),
                     last_sent_time := (last_sent_time c)(symbol \<mapsto> current_time)\<rparr>)
      else (False, c))"

text \<open>
  \<^verbatim>\<open>[[str(p), str(q)] for p, q in levels]\<close> of lines 121 and 122: each float becomes
  the field that parses back to it.
\<close>

definition format_levels :: "side \<Rightarrow> level list" where
  "format_levels d = map (\<lambda>(p, q). (Numeric p, Numeric q)) d"

text \<open>
  \<^verbatim>\<open>on_message\<close> (lines 97-164) on a message that is already decoded. The result is the
  client and the dictionary the callback is called with, if it is called. An error out
  of \<^verbatim>\<open>_update_orderbook\<close> is caught by \<^verbatim>\<open>except Exception\<close> at line 163, which
  logs: the store stays as the call left it and nothing is forwarded.
  \<^verbatim>\<open>sorted(d.items())\<close> compares pairs; the keys of a dictionary are distinct, so this is
  the order of the prices, and \<^verbatim>\<open>reverse=True\<close> is that order reversed.
\<close>

definition on_message ::
  "client \<Rightarrow> string \<Rightarrow> message \<Rightarrow> real \<Rightarrow> client \<times> orderbook_data option" where
  "on_message c symbol data current_time =
     (case update_orderbook (orderbooks c) symbol data of
        (obs, Some err) \<Rightarrow> (c\<lparr>orderbooks := obs\<rparr>, None)
      | (obs, None) \<Rightarrow>
          (let c1 = c\<lparr>orderbooks := obs\<rparr>
           in case orderbooks c1 symbol of
                None \<Rightarrow> (c1, None)
              | Some ob \<Rightarrow>
                  if length (bids ob) > 0 then
                    (let top_bids = take 20 (rev (sort_key fst (bids ob)));
                         top_asks = take 20 (sort_key fst (asks ob))
                     in if top_bids \<noteq> [] \<and> top_asks \<noteq> [] then
                          (let current_data = \<lparr>data_symbol = symbol,
                                                data_bids = format_levels top_bids,
                                                data_asks = format_levels top_asks\<rparr>
                           in case forward c1 symbol current_data current_time of
                                (True, c2) \<Rightarrow> (c2, Some current_data)
                              | (False, c2) \<Rightarrow> (c2, None))
                        else (c1, None))
                  else (c1, None)))"

section \<open>The ratio of \<^verbatim>\<open>imbalance_calculator.py\<close>\<close>

text \<open>
  The slice \<^verbatim>\<open>xs[:n]\<close> of Python: a negative \<open>n\<close> counts from the end.
\<close>

definition slice_to :: "'a list \<Rightarrow> int \<Rightarrow> 'a list" where
  "slice_to xs n = (if 0 \<le> n then take (nat n) xs else take (nat (int (length xs) + n)) xs)"

text \<open>
  \<^verbatim>\<open>sum(float(price) * float(quantity) for price, quantity in levels)\<close>: the sum starts
  at 0 and adds from the left; the first field that is not a number raises.
\<close>

fun sum_volume :: "real \<Rightarrow> level list \<Rightarrow> error + real" where
  "sum_volume acc [] = Inr acc"
| "sum_volume acc ((price, quantity) # es) =
     (case float price of
        Inl e \<Rightarrow> Inl e
      | Inr price_f \<Rightarrow>
          (case float quantity of
             Inl e \<Rightarrow> Inl e
           | Inr quantity_f \<Rightarrow> sum_volume (acc + price_f * quantity_f) es))"

text \<open>
  \<^verbatim>\<open>calculate_imbalance_ratio\<close> (lines 10-50). The \<^verbatim>\<open>except\<close> clause turns an error of
  \<^verbatim>\<open>float()\<close> into \<^verbatim>\<open>None\<close>.
\<close>

definition calculate_imbalance_ratio :: "level list \<Rightarrow> level list \<Rightarrow> int \<Rightarrow> real option" where
  "calculate_imbalance_ratio bs as top_n =
     (let top_bids = (if int (length bs) \<ge> top_n then slice_to bs top_n else bs);
          top_asks = (if int (length as) \<ge> top_n then slice_to as top_n else as)
      in case sum_volume 0 top_bids of
           Inl e \<Rightarrow> None
         | Inr bid_volume \<Rightarrow>
             (case sum_volume 0 top_asks of
                Inl e \<Rightarrow> None
              | Inr ask_volume \<Rightarrow>
                  (let total_volume = bid_volume + ask_volume
                   in if total_volume = 0 then None
                      else Some ((bid_volume - ask_volume) / total_volume))))"

record result =
  result_symbol :: string
  result_imbalance_ratio :: real
  bids_count :: nat
  asks_count :: nat

text \<open>\<^verbatim>\<open>process_orderbook\<close> (lines 53-87).\<close>

definition process_orderbook :: "orderbook_data \<Rightarrow> int \<Rightarrow> result option" where
  "process_orderbook data top_n =
     (if data_symbol data = [] \<or> data_bids data = [] \<or> data_asks data = [] then None
      else case calculate_imbalance_ratio (data_bids data) (data_asks data) top_n of
             None \<Rightarrow> None
           | Some r \<Rightarrow>
               Some \<lparr>result_symbol = data_symbol data, result_imbalance_ratio = r,
                     bids_count = length (data_bids data),
                     asks_count = length (data_asks data)\<rparr>)"

section \<open>The notifier of \<^verbatim>\<open>telegram_notifier.py\<close>\<close>

text \<open>
  The two dictionaries of \<^verbatim>\<open>TelegramNotifier\<close>; the token, the chat and the threshold
  only go into the text of the message.
\<close>

record notifier =
  tn_last_notification_time :: "string \<rightharpoonup> real"
  tn_last_notification_value :: "string \<rightharpoonup> real"

definition notification_cooldown :: real where
  "notification_cooldown = 10"

text \<open>
  \<^verbatim>\<open>send_notification\<close> (lines 104-151). \<open>current_time\<close> is the value of \<^verbatim>\<open>time.time()\<close>
  at line 116; \<open>delivered\<close> is what \<^verbatim>\<open>_send_message_async\<close> returns when it is run, the
  answer of the Telegram API, which the function does not control.
\<close>

definition send_notification ::
  "notifier \<Rightarrow> string \<Rightarrow> real \<Rightarrow> real \<Rightarrow> bool \<Rightarrow> bool \<times> notifier" where
  "send_notification n symbol ratio current_time delivered =
     (let last_time = (case tn_last_notification_time n symbol of None \<Rightarrow> 0 | Some t \<Rightarrow> t);
          last_value = tn_last_notification_value n symbol
      in if current_time - last_time < notification_cooldown then (False, n)
         else if (case last_value of None \<Rightarrow> False | Some lv \<Rightarrow> \<bar>ratio - lv\<bar> < 0.0005)
         then (False, n)
         else (let success = delivered
               in if success
                  then (success, n\<lparr>tn_last_notification_time :=
                                      (tn_last_notification_time n)(symbol \<mapsto> current_time),
                                    tn_last_notification_value :=
                                      (tn_last_notification_value n)(symbol \<mapsto> ratio)\<rparr>)
                  else (success, n)))"

section \<open>The monitor of \<^verbatim>\<open>main.py\<close>\<close>

record monitor =
  last_imbalance_ratios :: "string \<rightharpoonup> real"
  last_notification_time :: "string \<rightharpoonup> real"
  telegram_notifier :: notifier

definition periodic_notification_interval :: real where
  "periodic_notification_interval = 30"

datatype decision = Alert | Suppress

text \<open>
  Lines 94-152 of \<^verbatim>\<open>_handle_orderbook_update\<close>, for a symbol and a ratio that passed
  the check of line 91. The ratio is a float, so the \<^verbatim>\<open>float()\<close> calls of lines 101,
  102 and 110 return their argument and the two \<^verbatim>\<open>except\<close> clauses are dead.
  \<open>current_time\<close> is \<^verbatim>\<open>time.time()\<close> at line 117, \<open>send_time\<close> the later reading inside
  \<^verbatim>\<open>send_notification\<close>. The decision is \<open>Alert\<close> when \<^verbatim>\<open>should_send\<close> holds, that is
  when \<^verbatim>\<open>send_notification\<close> is called.
\<close>

definition alert_gate ::
  "monitor \<Rightarrow> string \<Rightarrow> real \<Rightarrow> real \<Rightarrow> real \<Rightarrow> real \<Rightarrow> bool \<Rightarrow> decision \<times> monitor" where
  "alert_gate m symbol ratio threshold current_time send_time delivered =
     (let last_ratio = last_imbalance_ratios m symbol;
          ratio_changed = (case last_ratio of None \<Rightarrow> True
                           | Some last_ratio_val \<Rightarrow> \<bar>ratio - last_ratio_val\<bar> > 0.0001);
          threshold_val = \<bar>threshold\<bar>;
          exceeds_threshold = (\<bar>ratio\<bar> > threshold_val)
      in if exceeds_threshold then
           (let last_notif_time = (case last_notification_time m symbol of None \<Rightarrow> 0 | Some t \<Rightarrow> t);
                time_since_last = current_time - last_notif_time
            in if ratio_changed \<or> time_since_last \<ge> periodic_notification_interval then
                 (case send_notification (telegram_notifier m) symbol ratio send_time delivered of
                    (notification_sent, n') \<Rightarrow>
                      if notification_sent
                      then (Alert, m\<lparr>last_notification_time :=
                                        (last_notification_time m)(symbol \<mapsto> current_time),
                                      last_imbalance_ratios :=
                                        (last_imbalance_ratios m)(symbol \<mapsto> ratio),
                                      telegram_notifier := n'\<rparr>)
                      else (Alert, m\<lparr>telegram_notifier := n'\<rparr>))
               else (Suppress, m))
         else (Suppress, m\<lparr>last_imbalance_ratios := (last_imbalance_ratios m)(symbol \<mapsto> ratio)\<rparr>))"

text \<open>
  \<^verbatim>\<open>_handle_orderbook_update\<close> (lines 67-155): no decision when the data is incomplete or
  no ratio can be computed.
\<close>

definition handle_orderbook_update ::
  "monitor \<Rightarrow> orderbook_data \<Rightarrow> real \<Rightarrow> int \<Rightarrow> real \<Rightarrow> real \<Rightarrow> bool
     \<Rightarrow> decision option \<times> monitor" where
  "handle_orderbook_update m data threshold top_n current_time send_time delivered =
     (case parse_orderbook_data data of
        None \<Rightarrow> (None, m)
      | Some od \<Rightarrow>
          (case process_orderbook od top_n of
             None \<Rightarrow> (None, m)
           | Some res \<Rightarrow>
               if result_symbol res = [] then (None, m)
               else (case alert_gate m (result_symbol res) (result_imbalance_ratio res) threshold
                            current_time send_time delivered of
                       (d, m') \<Rightarrow> (Some d, m'))))"

text \<open>
  A run of the gate on a list of observations for one symbol: each is the ratio, the two
  clock readings and the answer of the Telegram API. The decisions are returned in order.
\<close>

fun run_gate ::
  "monitor \<Rightarrow> string \<Rightarrow> real \<Rightarrow> (real \<times> real \<times> real \<times> bool) list \<Rightarrow> decision list" where
  "run_gate m symbol threshold [] = []"
| "run_gate m symbol threshold ((ratio, current_time, send_time, delivered) # obs) =
     (case alert_gate m symbol ratio threshold current_time send_time delivered of
        (d, m') \<Rightarrow> d # run_gate m' symbol threshold obs)"

definition empty_monitor :: monitor where
  "empty_monitor =
     \<lparr>last_imbalance_ratios = Map.empty, last_notification_time = Map.empty,
      telegram_notifier = \<lparr>tn_last_notification_time = Map.empty,
                            tn_last_notification_value = Map.empty\<rparr>\<rparr>"

section \<open>Properties of the order book\<close>

subsection \<open>Applying an update\<close>

text \<open>
  What one iteration does to the dictionary of its side: quantity 0 removes the price,
  and changes nothing when the price is not a key; another quantity sets the price to
  it; a price or a quantity that \<^verbatim>\<open>float()\<close> rejects with \<^verbatim>\<open>ValueError\<close> or
  \<^verbatim>\<open>TypeError\<close> changes nothing and the loop goes on.
\<close>

lemma update_entry_zero:
  "update_entry d (Array [Raw (Numeric p), Raw (Numeric 0)]) = Inr (AList.delete p d)"
  by (simp add: update_entry_def)

lemma update_entry_upsert:
  "q \<noteq> 0 \<Longrightarrow> update_entry d (Array [Raw (Numeric p), Raw (Numeric q)]) = Inr (AList.update p q d)"
  by (simp add: update_entry_def)

lemma update_entry_zero_absent:
  "map_of d p = None \<Longrightarrow> update_entry d (Array [Raw (Numeric p), Raw (Numeric 0)]) = Inr d"
  by (simp add: update_entry_def map_of_eq_None_iff)

lemma float_caught: "float v = Inl err \<Longrightarrow> caught err"
  by (cases v) (auto simp: caught_def)

lemma update_entry_skipped:
  "float price = Inl err \<or> float qty = Inl err \<Longrightarrow>
     update_entry d (Array [Raw price, Raw qty]) = Inr d"
  by (auto simp: update_entry_def float_caught split: sum.splits)

lemma update_entry_plain: "plain e \<Longrightarrow> \<exists>d'. update_entry d e = Inr d'"
  by (induction e rule: plain.induct)
     (auto simp: update_entry_def float_caught split: sum.splits)

lemma update_side_plain: "list_all plain es \<Longrightarrow> snd (update_side d es) = None"
proof (induction es arbitrary: d)
  case Nil
  then show ?case by simp
next
  case (Cons e es)
  then obtain d' where "update_entry d e = Inr d'"
    using update_entry_plain [of e d] by auto
  with Cons show ?case by simp
qed

lemma update_side_step:
  "update_entry d e = Inr d' \<Longrightarrow> update_side d (e # es) = update_side d' es"
  by simp

lemma update_side_append:
  "snd (update_side d es) = None \<Longrightarrow>
     update_side d (es @ es') = update_side (fst (update_side d es)) es'"
  by (induction es arbitrary: d) (auto split: sum.splits)

lemma update_side_abort:
  "update_entry (fst (update_side d es)) e = Inl err \<Longrightarrow> snd (update_side d es) = None \<Longrightarrow>
     update_side d (es @ e # es') = (fst (update_side d es), Some err)"
  by (simp add: update_side_append)

text \<open>
  On entries of two such fields neither loop raises, and the call stores, for both
  sides, what the entries make of the dictionary the book had, or of the empty one for a
  symbol with no book.
\<close>

lemma orderbook_overwrite:
  "(r::orderbook)\<lparr>bids := b, asks := a\<rparr> = \<lparr>bids = b, asks = a\<rparr>"
  by (cases r) simp

lemma update_orderbook_plain:
  assumes "list_all plain bs" and "list_all plain as"
  shows "update_orderbook obs symbol (Update \<lparr>bids_data = Levels bs, asks_data = Levels as\<rparr>) =
     (let ob = (case obs symbol of None \<Rightarrow> \<lparr>bids = [], asks = []\<rparr> | Some ob \<Rightarrow> ob)
      in (obs(symbol \<mapsto> \<lparr>bids = fst (update_side (bids ob) bs),
                           asks = fst (update_side (asks ob) as)\<rparr>), None))"
proof -
  let ?ob = "case obs symbol of None \<Rightarrow> \<lparr>bids = [], asks = []\<rparr> | Some ob \<Rightarrow> ob"
  from assms have "snd (update_side (bids ?ob) bs) = None" "snd (update_side (asks ?ob) as) = None"
    by (simp_all add: update_side_plain)
  then obtain b a where "update_side (bids ?ob) bs = (b, None)" "update_side (asks ?ob) as = (a, None)"
    by (metis prod.collapse)
  then show ?thesis
    by (simp add: update_orderbook_def Let_def orderbook_overwrite)
qed

lemma update_orderbook_creates:
  "obs symbol = None \<Longrightarrow>
     update_orderbook obs symbol msg =
       update_orderbook (obs(symbol \<mapsto> \<lparr>bids = [], asks = []\<rparr>)) symbol msg"
  by (simp add: update_orderbook_def)

lemma update_orderbook_has_book:
  "fst (update_orderbook obs symbol msg) symbol \<noteq> None"
  by (auto simp: update_orderbook_def Let_def
        split: message.splits payload.splits prod.splits option.splits)

text \<open>
  Claim C7 says that a malformed entry is skipped and that every remaining entry of the
  same delta is still applied. The \<^verbatim>\<open>except\<close> clause names \<^verbatim>\<open>ValueError\<close> and
  \<^verbatim>\<open>TypeError\<close> only, and the unpacking of the entry is outside the \<^verbatim>\<open>try\<close>: a
  quantity that is an integer too large for a float, or an entry that does not have two
  elements, ends the call. Here the bid for 102 and the removal of the ask at 103 are
  lost, while with a quantity that is not a number at the same place both are applied.
\<close>

theorem update_orderbook_entry_aborts:
  "update_orderbook [''BTCUSDT'' \<mapsto> \<lparr>bids = [(99, 1)], asks = [(103, 1)]\<rparr>] ''BTCUSDT''
     (Update \<lparr>bids_data = Levels [Array [Raw (Numeric 100), Raw (Numeric 1)],
                                    Array [Raw (Numeric 101), HugeInt],
                                    Array [Raw (Numeric 102), Raw (Numeric 2)]],
              asks_data = Levels [Array [Raw (Numeric 103), Raw (Numeric 0)]]\<rparr>)
     = ([''BTCUSDT'' \<mapsto> \<lparr>bids = [(99, 1), (100, 1)], asks = [(103, 1)]\<rparr>],
        Some OverflowError)
   \<and> update_orderbook [''BTCUSDT'' \<mapsto> \<lparr>bids = [(99, 1)], asks = [(103, 1)]\<rparr>] ''BTCUSDT''
     (Update \<lparr>bids_data = Levels [Array [Raw (Numeric 100), Raw (Numeric 1)],
                                    Array [Raw (Numeric 101)],
                                    Array [Raw (Numeric 102), Raw (Numeric 2)]],
              asks_data = Levels [Array [Raw (Numeric 103), Raw (Numeric 0)]]\<rparr>)
     = ([''BTCUSDT'' \<mapsto> \<lparr>bids = [(99, 1), (100, 1)], asks = [(103, 1)]\<rparr>],
        Some ValueError)
   \<and> update_orderbook [''BTCUSDT'' \<mapsto> \<lparr>bids = [(99, 1)], asks = [(103, 1)]\<rparr>] ''BTCUSDT''
     (Update \<lparr>bids_data = Levels [Array [Raw (Numeric 100), Raw (Numeric 1)],
                                    Array [Raw (Numeric 101), Raw Garbage],
                                    Array [Raw (Numeric 102), Raw (Numeric 2)]],
              asks_data = Levels [Array [Raw (Numeric 103), Raw (Numeric 0)]]\<rparr>)
     = ([''BTCUSDT'' \<mapsto> \<lparr>bids = [(99, 1), (100, 1), (102, 2)], asks = []\<rparr>], None)"
  by (simp add: update_orderbook_def update_entry_def caught_def)

text \<open>
  Claim C10 says that an update for a symbol with no order book never fails. The empty
  book is created first, as the claim says, but the same two errors then leave the call
  with the book still empty; on entries of two fields that \<^verbatim>\<open>float()\<close> reads the
  update is applied to the new book.
\<close>

theorem update_orderbook_unknown_symbol_raises:
  "update_orderbook Map.empty ''SOLUSDT''
     (Update \<lparr>bids_data = Levels [Array [Raw (Numeric 100), HugeInt]],
              asks_data = Levels [Array [Raw (Numeric 101), Raw (Numeric 3)]]\<rparr>)
     = ([''SOLUSDT'' \<mapsto> \<lparr>bids = [], asks = []\<rparr>], Some OverflowError)
   \<and> update_orderbook Map.empty ''SOLUSDT''
     (Update \<lparr>bids_data = Levels [Array [Raw (Numeric 100), Raw (Numeric 2), Raw Null]],
              asks_data = Levels [Array [Raw (Numeric 101), Raw (Numeric 3)]]\<rparr>)
     = ([''SOLUSDT'' \<mapsto> \<lparr>bids = [], asks = []\<rparr>], Some ValueError)
   \<and> update_orderbook Map.empty ''SOLUSDT''
     (Update \<lparr>bids_data = Levels [Array [Raw (Numeric 100), Raw (Numeric 2)]],
              asks_data = Levels [Array [Raw (Numeric 101), Raw (Numeric 3)]]\<rparr>)
     = ([''SOLUSDT'' \<mapsto> \<lparr>bids = [(100, 2)], asks = [(101, 3)]\<rparr>], None)"
  by (simp add: update_orderbook_def update_entry_def caught_def)

subsection \<open>The initial snapshot\<close>

lemma dict_of_levels_numeric:
  "dict_of_levels d (format_levels xs) = Inr (fold (\<lambda>(p, q). AList.update p q) xs d)"
  by (induction xs arbitrary: d) (auto simp: format_levels_def)

text \<open>
  Claim C9 says that the snapshot is refused with an \<^verbatim>\<open>InvalidSnapshot\<close> error when
  its bids or its asks are empty, and that the book is then not replaced. \<^verbatim>\<open>start\<close> has
  no such check: with empty bids, or empty asks, the book of the symbol is set, with that
  side empty, whether the symbol had a book before or not.
\<close>

theorem start_symbol_empty_counterexample:
  "start_symbol Map.empty ''BTCUSDT'' (Some ([], [(Numeric 102, Numeric 3)]))
     = Inr ([''BTCUSDT'' \<mapsto> \<lparr>bids = [], asks = [(102, 3)]\<rparr>],
            Some \<lparr>data_symbol = ''BTCUSDT'', data_bids = [],
                  data_asks = [(Numeric 102, Numeric 3)]\<rparr>)
   \<and> start_symbol [''BTCUSDT'' \<mapsto> \<lparr>bids = [(100, 2)], asks = [(101, 1)]\<rparr>] ''BTCUSDT''
       (Some ([(Numeric 99, Numeric 4)], []))
     = Inr ([''BTCUSDT'' \<mapsto> \<lparr>bids = [(99, 4)], asks = []\<rparr>],
            Some \<lparr>data_symbol = ''BTCUSDT'', data_bids = [(Numeric 99, Numeric 4)],
                  data_asks = []\<rparr>)"
  by (simp add: start_symbol_def)

text \<open>
  Claim C9, amended. A snapshot whose prices and quantities are numbers replaces the book
  of the symbol by the dictionaries built from its bids and asks (a later entry for the
  same price overwrites an earlier one), also when the bids or the asks are empty: that
  side of the new book is then empty.
\<close>

theorem start_symbol_replaces:
  "start_symbol obs symbol (Some (format_levels bs, format_levels as)) =
     Inr (obs(symbol \<mapsto> \<lparr>bids = fold (\<lambda>(p, q). AList.update p q) bs [],
                         asks = fold (\<lambda>(p, q). AList.update p q) as []\<rparr>),
          Some \<lparr>data_symbol = symbol, data_bids = format_levels bs,
                data_asks = format_levels as\<rparr>)
   \<and> start_symbol obs symbol (Some ([], format_levels as)) =
     Inr (obs(symbol \<mapsto> \<lparr>bids = [],
                         asks = fold (\<lambda>(p, q). AList.update p q) as []\<rparr>),
          Some \<lparr>data_symbol = symbol, data_bids = [], data_asks = format_levels as\<rparr>)
   \<and> start_symbol obs symbol (Some (format_levels bs, [])) =
     Inr (obs(symbol \<mapsto> \<lparr>bids = fold (\<lambda>(p, q). AList.update p q) bs [],
                         asks = []\<rparr>),
          Some \<lparr>data_symbol = symbol, data_bids = format_levels bs, data_asks = []\<rparr>)"
  by (simp add: start_symbol_def dict_of_levels_numeric)

theorem start_symbol_replaces_witness:
  "start_symbol Map.empty ''DOTUSDT'' (Some ([(Numeric 7, Numeric 2), (Numeric 7, Numeric 5)], []))
     = Inr ([''DOTUSDT'' \<mapsto> \<lparr>bids = [(7, 5)], asks = []\<rparr>],
            Some \<lparr>data_symbol = ''DOTUSDT'',
                  data_bids = [(Numeric 7, Numeric 2), (Numeric 7, Numeric 5)],
                  data_asks = []\<rparr>)"
  using start_symbol_replaces [of Map.empty "''DOTUSDT''" "[(7, 2), (7, 5)]" "[]"]
  by (simp add: format_levels_def)

subsection \<open>Stored quantities\<close>

text \<open>
  The loops of \<^verbatim>\<open>_update_orderbook\<close> keep every stored quantity strictly positive
  when no entry carries a negative quantity: quantity 0 removes the level.
\<close>

lemma side_positive_update:
  "side_positive d \<Longrightarrow> 0 < q \<Longrightarrow> side_positive (AList.update p q d)"
  by (induction d) (auto simp: side_positive_def)

lemma side_positive_delete:
  "side_positive d \<Longrightarrow> side_positive (AList.delete p d)"
  by (induction d) (auto simp: side_positive_def)

lemma side_positive_update_entry:
  "side_positive d \<Longrightarrow> quantity_not_negative e \<Longrightarrow> update_entry d e = Inr d'
     \<Longrightarrow> side_positive d'"
  by (auto simp: update_entry_def quantity_not_negative_def side_positive_update
        side_positive_delete split: sum.splits prod.splits if_splits)

lemma side_positive_update_side:
  "side_positive d \<Longrightarrow> list_all quantity_not_negative es
     \<Longrightarrow> side_positive (fst (update_side d es))"
proof (induction es arbitrary: d)
  case Nil
  then show ?case by simp
next
  case (Cons e es)
  show ?case
  proof (cases "update_entry d e")
    case (Inl err)
    with Cons.prems(1) show ?thesis by simp
  next
    case (Inr d')
    with Cons.prems have "side_positive d'"
      by (auto intro: side_positive_update_entry)
    with Cons.IH Cons.prems(2) Inr show ?thesis by simp
  qed
qed

lemma book_positive_update_orderbook:
  assumes pos: "book_positive obs"
    and "payload_not_negative (bids_data upd)" and "payload_not_negative (asks_data upd)"
  shows "book_positive (fst (update_orderbook obs symbol (Update upd)))"
proof -
  let ?ob = "case obs symbol of None \<Rightarrow> \<lparr>bids = [], asks = []\<rparr> | Some ob \<Rightarrow> ob"
  have ob: "side_positive (bids ?ob)" "side_positive (asks ?ob)"
    using pos by (auto simp: book_positive_def side_positive_def split: option.splits)
  have b: "\<And>bs. bids_data upd = Levels bs \<Longrightarrow> side_positive (fst (update_side (bids ?ob) bs))"
    using assms(2) ob by (simp add: side_positive_update_side)
  have a: "\<And>as. asks_data upd = Levels as \<Longrightarrow> side_positive (fst (update_side (asks ?ob) as))"
    using assms(3) ob by (simp add: side_positive_update_side)
  have rest: "\<And>s x. s \<noteq> symbol \<Longrightarrow> obs s = Some x \<Longrightarrow>
      side_positive (bids x) \<and> side_positive (asks x)"
    using pos by (auto simp: book_positive_def)
  show ?thesis
    unfolding book_positive_def update_orderbook_def Let_def
    using ob a b rest
    by (auto split: payload.splits prod.splits option.splits if_splits
          simp: fst_def)
qed

text \<open>
  Claim C6 says that a level with quantity 0 is never stored, whether the book is built
  from the snapshot or changed by updates. The dict comprehension of lines 65 and 66 has
  no test for 0: a snapshot level of quantity 0 is stored, where the same level in an
  update is not.
\<close>

theorem zero_quantity_snapshot:
  "start_symbol Map.empty ''BTCUSDT''
     (Some ([(Numeric 100, Numeric 0)], [(Numeric 101, Numeric 1)]))
     = Inr ([''BTCUSDT'' \<mapsto> \<lparr>bids = [(100, 0)], asks = [(101, 1)]\<rparr>],
            Some \<lparr>data_symbol = ''BTCUSDT'', data_bids = [(Numeric 100, Numeric 0)],
                  data_asks = [(Numeric 101, Numeric 1)]\<rparr>)
   \<and> update_orderbook Map.empty ''BTCUSDT''
       (Update \<lparr>bids_data = Levels [Array [Raw (Numeric 100), Raw (Numeric 0)]],
                asks_data = Levels [Array [Raw (Numeric 101), Raw (Numeric 1)]]\<rparr>)
     = ([''BTCUSDT'' \<mapsto> \<lparr>bids = [], asks = [(101, 1)]\<rparr>], None)"
  by (simp add: start_symbol_def update_orderbook_def update_entry_def)

lemma zero_quantity_not_positive:
  "\<not> book_positive [''BTCUSDT'' \<mapsto> \<lparr>bids = [(100, 0)], asks = [(101, 1)]\<rparr>]"
  by (simp add: book_positive_def side_positive_def)

section \<open>Properties of the forwarding decision\<close>

text \<open>
  Claim C5. The callback is called exactly when nothing was sent for the symbol before,
  or the first ten bids or the first ten asks differ from those sent last, or at least 5
  seconds passed since the last send (\<^verbatim>\<open>last_sent_time.get(symbol, 0)\<close>). When it is
  called, the data and the time are stored as the last sent; otherwise the client is
  unchanged.
\<close>

theorem forward_decision:
  "(fst (forward c symbol current_data current_time) \<longleftrightarrow>
      last_sent_data c symbol = None
      \<or> (case last_sent_data c symbol of None \<Rightarrow> False
         | Some last_data \<Rightarrow>
             take 10 (data_bids last_data) \<noteq> take 10 (data_bids current_data)
             \<or> take 10 (data_asks last_data) \<noteq> take 10 (data_asks current_data))
      \<or> current_time - (case last_sent_time c symbol of None \<Rightarrow> 0 | Some t \<Rightarrow> t) \<ge> 5)
   \<and> snd (forward c symbol current_data current_time) =
       (if fst (forward c symbol current_data current_time)
        then c\<lparr>last_sent_data := (last_sent_data c)(symbol \<mapsto> current_data),
               last_sent_time := (last_sent_time c)(symbol \<mapsto> current_time)\<rparr>
        else c)"
  by (auto simp: forward_def should_send_def Let_def split: option.splits)

theorem forward_decision_witness:
  "forward \<lparr>orderbooks = Map.empty,
            last_sent_data = [''BTCUSDT'' \<mapsto> \<lparr>data_symbol = ''BTCUSDT'',
               data_bids = [(Numeric 100, Numeric 2)], data_asks = [(Numeric 101, Numeric 1)]\<rparr>],
            last_sent_time = [''BTCUSDT'' \<mapsto> 1000]\<rparr>
      ''BTCUSDT''
      \<lparr>data_symbol = ''BTCUSDT'',
       data_bids = [(Numeric 100, Numeric 2)], data_asks = [(Numeric 101, Numeric 1)]\<rparr> 1003
   = (False, \<lparr>orderbooks = Map.empty,
            last_sent_data = [''BTCUSDT'' \<mapsto> \<lparr>data_symbol = ''BTCUSDT'',
               data_bids = [(Numeric 100, Numeric 2)], data_asks = [(Numeric 101, Numeric 1)]\<rparr>],
            last_sent_time = [''BTCUSDT'' \<mapsto> 1000]\<rparr>)
   \<and> forward \<lparr>orderbooks = Map.empty,
            last_sent_data = [''BTCUSDT'' \<mapsto> \<lparr>data_symbol = ''BTCUSDT'',
               data_bids = [(Numeric 100, Numeric 2)], data_asks = [(Numeric 101, Numeric 1)]\<rparr>],
            last_sent_time = [''BTCUSDT'' \<mapsto> 1000]\<rparr>
      ''BTCUSDT''
      \<lparr>data_symbol = ''BTCUSDT'',
       data_bids = [(Numeric 100, Numeric 2)], data_asks = [(Numeric 101, Numeric 1)]\<rparr> 1005
   = (True, \<lparr>orderbooks = Map.empty,
            last_sent_data = [''BTCUSDT'' \<mapsto> \<lparr>data_symbol = ''BTCUSDT'',
               data_bids = [(Numeric 100, Numeric 2)], data_asks = [(Numeric 101, Numeric 1)]\<rparr>],
            last_sent_time = [''BTCUSDT'' \<mapsto> 1005]\<rparr>)"
  using forward_decision [of "\<lparr>orderbooks = Map.empty,
            last_sent_data = [''BTCUSDT'' \<mapsto> \<lparr>data_symbol = ''BTCUSDT'',
               data_bids = [(Numeric 100, Numeric 2)], data_asks = [(Numeric 101, Numeric 1)]\<rparr>],
            last_sent_time = [''BTCUSDT'' \<mapsto> 1000]\<rparr>" "''BTCUSDT''"
      "\<lparr>data_symbol = ''BTCUSDT'',
       data_bids = [(Numeric 100, Numeric 2)], data_asks = [(Numeric 101, Numeric 1)]\<rparr>" 1003]
    forward_decision [of "\<lparr>orderbooks = Map.empty,
            last_sent_data = [''BTCUSDT'' \<mapsto> \<lparr>data_symbol = ''BTCUSDT'',
               data_bids = [(Numeric 100, Numeric 2)], data_asks = [(Numeric 101, Numeric 1)]\<rparr>],
            last_sent_time = [''BTCUSDT'' \<mapsto> 1000]\<rparr>" "''BTCUSDT''"
      "\<lparr>data_symbol = ''BTCUSDT'',
       data_bids = [(Numeric 100, Numeric 2)], data_asks = [(Numeric 101, Numeric 1)]\<rparr>" 1005]
  by (simp add: prod_eq_iff)

text \<open>
  The two dictionaries are written together, so a symbol with data sent has a time of
  sending.
\<close>

lemma forward_domains:
  "dom (last_sent_data c) = dom (last_sent_time c) \<Longrightarrow>
   dom (last_sent_data (snd (forward c symbol current_data current_time)))
     = dom (last_sent_time (snd (forward c symbol current_data current_time)))"
  by (simp add: forward_def)

text \<open>
  A message always updates the order book first; the two dictionaries stay in step.
\<close>

lemma on_message_orderbooks:
  "orderbooks (fst (on_message c symbol data current_time))
     = fst (update_orderbook (orderbooks c) symbol data)"
  by (auto simp: on_message_def Let_def forward_def split: option.splits prod.splits bool.splits)

lemma on_message_domains:
  "dom (last_sent_data c) = dom (last_sent_time c) \<Longrightarrow>
   dom (last_sent_data (fst (on_message c symbol data current_time)))
     = dom (last_sent_time (fst (on_message c symbol data current_time)))"
  by (auto simp: on_message_def Let_def forward_def split: option.splits prod.splits bool.splits)

section \<open>Properties of the imbalance ratio\<close>

lemma sum_volume_numeric:
  "sum_volume acc (format_levels xs) = Inr (acc + (\<Sum>(p, q)\<leftarrow>xs. p * q))"
  by (induction xs arbitrary: acc) (auto simp: format_levels_def)

lemma top_slice:
  "0 \<le> n \<Longrightarrow> (if int (length xs) \<ge> n then slice_to xs n else xs) = take (nat n) xs"
  by (auto simp: slice_to_def)

lemma take_format_levels: "take k (format_levels xs) = format_levels (take k xs)"
  by (simp add: format_levels_def take_map)

text \<open>
  Claim C8. On levels whose fields are numbers and with \<open>top_n\<close> not negative,
  \<^verbatim>\<open>calculate_imbalance_ratio\<close> sums price times quantity over the first \<open>top_n\<close> bids
  and asks (all of them when there are fewer), returns \<open>None\<close> exactly when the two sums
  add up to 0, by the test of line 39 and not by an exception, and otherwise returns
  their difference divided by their sum.
\<close>

theorem imbalance_ratio_formula:
  assumes "0 \<le> top_n"
  shows "calculate_imbalance_ratio (format_levels bs) (format_levels as) top_n =
     (let bid_volume = (\<Sum>(p, q)\<leftarrow>take (nat top_n) bs. p * q);
          ask_volume = (\<Sum>(p, q)\<leftarrow>take (nat top_n) as. p * q)
      in if bid_volume + ask_volume = 0 then None
         else Some ((bid_volume - ask_volume) / (bid_volume + ask_volume)))"
  unfolding calculate_imbalance_ratio_def
  by (simp only: top_slice [OF assms] Let_def take_format_levels sum_volume_numeric)
     simp

theorem imbalance_ratio_formula_witness:
  "calculate_imbalance_ratio
     [(Numeric 100, Numeric 3), (Numeric 99, Numeric 5)] [(Numeric 101, Numeric 1)] 1
     = Some (199 / 401)
   \<and> calculate_imbalance_ratio [(Numeric 100, Numeric 0)] [(Numeric 101, Numeric 0)] 10 = None"
  using imbalance_ratio_formula [of 1 "[(100, 3), (99, 5)]" "[(101, 1)]"]
        imbalance_ratio_formula [of 10 "[(100, 0)]" "[(101, 0)]"]
  by (simp add: format_levels_def)

text \<open>
  A field that is not a number among the levels summed also gives \<open>None\<close>, through the
  \<^verbatim>\<open>except\<close> clause.
\<close>

lemma imbalance_ratio_malformed:
  "calculate_imbalance_ratio [(Garbage, Numeric 1)] [(Numeric 101, Numeric 1)] 10 = None"
  by (simp add: calculate_imbalance_ratio_def slice_to_def)

section \<open>Properties of the notifier\<close>

text \<open>
  Claim C4. The clock is \<^verbatim>\<open>time.time()\<close>, seconds since 1970, so a reading is at
  least 10. Then \<^verbatim>\<open>send_notification\<close> returns \<open>False\<close> when something was delivered
  for the symbol less than 10 seconds ago; it returns \<open>False\<close> when a value was delivered
  before and the new one is within 0.0005 of it; otherwise it sends and returns the
  answer of the send, in particular when nothing was delivered for the symbol before.
  The time and the value of the last delivery are written exactly when the result is
  \<open>True\<close>.
\<close>

theorem send_notification_throttle:
  assumes "10 \<le> current_time"
  shows
  "((case tn_last_notification_time n symbol of None \<Rightarrow> False
     | Some t \<Rightarrow> current_time - t < 10)
      \<longrightarrow> send_notification n symbol ratio current_time delivered = (False, n))
   \<and> ((case tn_last_notification_value n symbol of None \<Rightarrow> False
        | Some lv \<Rightarrow> \<bar>ratio - lv\<bar> < 0.0005)
      \<longrightarrow> send_notification n symbol ratio current_time delivered = (False, n))
   \<and> (\<not> (case tn_last_notification_time n symbol of None \<Rightarrow> False
           | Some t \<Rightarrow> current_time - t < 10)
      \<and> \<not> (case tn_last_notification_value n symbol of None \<Rightarrow> False
            | Some lv \<Rightarrow> \<bar>ratio - lv\<bar> < 0.0005)
      \<longrightarrow> fst (send_notification n symbol ratio current_time delivered) = delivered)
   \<and> (tn_last_notification_time n symbol = None \<and> tn_last_notification_value n symbol = None
      \<longrightarrow> fst (send_notification n symbol ratio current_time delivered) = delivered)
   \<and> snd (send_notification n symbol ratio current_time delivered) =
       (if fst (send_notification n symbol ratio current_time delivered)
        then n\<lparr>tn_last_notification_time := (tn_last_notification_time n)(symbol \<mapsto> current_time),
               tn_last_notification_value := (tn_last_notification_value n)(symbol \<mapsto> ratio)\<rparr>
        else n)"
  using assms
  by (auto simp: send_notification_def Let_def notification_cooldown_def split: option.splits)

theorem send_notification_throttle_witness:
  "send_notification \<lparr>tn_last_notification_time = [''BTCUSDT'' \<mapsto> 1000],
                       tn_last_notification_value = [''BTCUSDT'' \<mapsto> 0.6]\<rparr>
      ''BTCUSDT'' 0.7 1005 True
     = (False, \<lparr>tn_last_notification_time = [''BTCUSDT'' \<mapsto> 1000],
                tn_last_notification_value = [''BTCUSDT'' \<mapsto> 0.6]\<rparr>)
   \<and> send_notification \<lparr>tn_last_notification_time = [''BTCUSDT'' \<mapsto> 1000],
                       tn_last_notification_value = [''BTCUSDT'' \<mapsto> 0.6]\<rparr>
      ''BTCUSDT'' 0.6003 1020 True
     = (False, \<lparr>tn_last_notification_time = [''BTCUSDT'' \<mapsto> 1000],
                tn_last_notification_value = [''BTCUSDT'' \<mapsto> 0.6]\<rparr>)
   \<and> fst (send_notification \<lparr>tn_last_notification_time = [''BTCUSDT'' \<mapsto> 1000],
                       tn_last_notification_value = [''BTCUSDT'' \<mapsto> 0.6]\<rparr>
      ''BTCUSDT'' 0.7 1020 True)
   \<and> fst (send_notification \<lparr>tn_last_notification_time = Map.empty,
                       tn_last_notification_value = Map.empty\<rparr>
      ''BTCUSDT'' 0.7 1020 True)"
proof -
  have c1: "(10::real) \<le> 1005" and c2: "(10::real) \<le> 1020" by simp_all
  from send_notification_throttle [OF c1, of "\<lparr>tn_last_notification_time = [''BTCUSDT'' \<mapsto> 1000],
                       tn_last_notification_value = [''BTCUSDT'' \<mapsto> 0.6]\<rparr>" "''BTCUSDT''" "0.7" True]
    send_notification_throttle [OF c2, of "\<lparr>tn_last_notification_time = [''BTCUSDT'' \<mapsto> 1000],
                       tn_last_notification_value = [''BTCUSDT'' \<mapsto> 0.6]\<rparr>" "''BTCUSDT''" "0.6003" True]
    send_notification_throttle [OF c2, of "\<lparr>tn_last_notification_time = [''BTCUSDT'' \<mapsto> 1000],
                       tn_last_notification_value = [''BTCUSDT'' \<mapsto> 0.6]\<rparr>" "''BTCUSDT''" "0.7" True]
    send_notification_throttle [OF c2, of "\<lparr>tn_last_notification_time = Map.empty,
                       tn_last_notification_value = Map.empty\<rparr>" "''BTCUSDT''" "0.7" True]
  show ?thesis by simp
qed

text \<open>
  The bound on the clock is needed: a missing time of last delivery is read as 0
  (\<^verbatim>\<open>last_notification_time.get(symbol, 0)\<close>).
\<close>

lemma send_notification_clock_default:
  "send_notification (telegram_notifier empty_monitor) ''BTCUSDT'' 0.6 5 True
     = (False, telegram_notifier empty_monitor)"
  by (simp add: send_notification_def notification_cooldown_def empty_monitor_def)

section \<open>Properties of the alert decision\<close>

lemma send_notification_cases:
  "send_notification n symbol ratio t delivered =
     (if fst (send_notification n symbol ratio t delivered)
      then (True, n\<lparr>tn_last_notification_time := (tn_last_notification_time n)(symbol \<mapsto> t),
                   tn_last_notification_value := (tn_last_notification_value n)(symbol \<mapsto> ratio)\<rparr>)
      else (False, n))"
  by (simp add: send_notification_def Let_def)

lemma gate_under:
  "\<not> \<bar>ratio\<bar> > \<bar>threshold\<bar> \<Longrightarrow>
     alert_gate m symbol ratio threshold current_time send_time delivered =
       (Suppress, m\<lparr>last_imbalance_ratios := (last_imbalance_ratios m)(symbol \<mapsto> ratio)\<rparr>)"
  by (simp add: alert_gate_def Let_def)

lemma gate_frozen:
  "\<bar>ratio\<bar> > \<bar>threshold\<bar> \<Longrightarrow> last_imbalance_ratios m symbol = Some lv \<Longrightarrow>
   \<not> \<bar>ratio - lv\<bar> > 0.0001 \<Longrightarrow>
   \<not> current_time - (case last_notification_time m symbol of None \<Rightarrow> 0 | Some t \<Rightarrow> t) \<ge> 30 \<Longrightarrow>
     alert_gate m symbol ratio threshold current_time send_time delivered = (Suppress, m)"
  by (simp add: alert_gate_def Let_def periodic_notification_interval_def)

lemma gate_alert:
  "\<bar>ratio\<bar> > \<bar>threshold\<bar> \<Longrightarrow>
   (case last_imbalance_ratios m symbol of None \<Rightarrow> True | Some lv \<Rightarrow> \<bar>ratio - lv\<bar> > 0.0001)
    \<or> current_time - (case last_notification_time m symbol of None \<Rightarrow> 0 | Some t \<Rightarrow> t) \<ge> 30 \<Longrightarrow>
     alert_gate m symbol ratio threshold current_time send_time delivered =
       (Alert,
        if fst (send_notification (telegram_notifier m) symbol ratio send_time delivered)
        then m\<lparr>last_notification_time := (last_notification_time m)(symbol \<mapsto> current_time),
               last_imbalance_ratios := (last_imbalance_ratios m)(symbol \<mapsto> ratio),
               telegram_notifier := snd (send_notification (telegram_notifier m) symbol ratio send_time delivered)\<rparr>
        else m\<lparr>telegram_notifier := snd (send_notification (telegram_notifier m) symbol ratio send_time delivered)\<rparr>)"
  by (simp add: alert_gate_def Let_def periodic_notification_interval_def split: prod.splits)

text \<open>
  Claim C1. A ratio that does not exceed the threshold in absolute value is stored as
  the last ratio of the symbol and the decision is \<open>Suppress\<close>. A ratio that exceeds it
  is suppressed exactly when it is within 0.0001 of the last ratio and less than 30
  seconds passed since the last notification; the monitor is then unchanged, the last
  ratio and the time of the last notification included.
\<close>

theorem alert_gate_asymmetry:
  "(\<bar>ratio\<bar> \<le> \<bar>threshold\<bar> \<longrightarrow>
      alert_gate m symbol ratio threshold current_time send_time delivered =
        (Suppress, m\<lparr>last_imbalance_ratios := (last_imbalance_ratios m)(symbol \<mapsto> ratio)\<rparr>))
   \<and> (\<bar>ratio\<bar> > \<bar>threshold\<bar> \<longrightarrow>
        (fst (alert_gate m symbol ratio threshold current_time send_time delivered) = Suppress
           \<longleftrightarrow> (case last_imbalance_ratios m symbol of None \<Rightarrow> False
                | Some lv \<Rightarrow> \<bar>ratio - lv\<bar> \<le> 0.0001)
               \<and> current_time - (case last_notification_time m symbol of None \<Rightarrow> 0 | Some t \<Rightarrow> t) < 30)
        \<and> (fst (alert_gate m symbol ratio threshold current_time send_time delivered) = Suppress
             \<longrightarrow> snd (alert_gate m symbol ratio threshold current_time send_time delivered) = m))"
proof (cases "\<bar>ratio\<bar> > \<bar>threshold\<bar>")
  case False
  then show ?thesis by (simp add: gate_under)
next
  case exceeds: True
  let ?changed = "case last_imbalance_ratios m symbol of None \<Rightarrow> True
                  | Some lv \<Rightarrow> \<bar>ratio - lv\<bar> > 0.0001"
  let ?due = "current_time - (case last_notification_time m symbol of None \<Rightarrow> 0 | Some t \<Rightarrow> t) \<ge> 30"
  show ?thesis
  proof (cases "?changed \<or> ?due")
    case True
    from gate_alert [OF exceeds True]
    have "fst (alert_gate m symbol ratio threshold current_time send_time delivered) = Alert"
      by simp
    with exceeds True show ?thesis
      by (auto split: option.splits)
  next
    case False
    then obtain lv where lv: "last_imbalance_ratios m symbol = Some lv"
      and same: "\<not> \<bar>ratio - lv\<bar> > 0.0001" and early: "\<not> ?due"
      by (auto split: option.splits)
    from gate_frozen [OF exceeds lv same early]
    have "alert_gate m symbol ratio threshold current_time send_time delivered = (Suppress, m)" .
    with exceeds lv same early show ?thesis
      by simp
  qed
qed

theorem alert_gate_asymmetry_witness:
  "alert_gate empty_monitor ''BTCUSDT'' 0.3 0.5 1000 1001 True =
     (Suppress, empty_monitor\<lparr>last_imbalance_ratios := [''BTCUSDT'' \<mapsto> 0.3]\<rparr>)
   \<and> fst (alert_gate (empty_monitor\<lparr>last_imbalance_ratios := [''BTCUSDT'' \<mapsto> 0.6],
                                   last_notification_time := [''BTCUSDT'' \<mapsto> 1000]\<rparr>)
            ''BTCUSDT'' 0.6 0.5 1005 1006 True) = Suppress
   \<and> snd (alert_gate (empty_monitor\<lparr>last_imbalance_ratios := [''BTCUSDT'' \<mapsto> 0.6],
                                   last_notification_time := [''BTCUSDT'' \<mapsto> 1000]\<rparr>)
            ''BTCUSDT'' 0.6 0.5 1005 1006 True) =
       empty_monitor\<lparr>last_imbalance_ratios := [''BTCUSDT'' \<mapsto> 0.6],
                     last_notification_time := [''BTCUSDT'' \<mapsto> 1000]\<rparr>"
  using alert_gate_asymmetry [of "0.3" "0.5" empty_monitor "''BTCUSDT''" 1000 1001 True]
        alert_gate_asymmetry [of "0.6" "0.5"
          "empty_monitor\<lparr>last_imbalance_ratios := [''BTCUSDT'' \<mapsto> 0.6],
                         last_notification_time := [''BTCUSDT'' \<mapsto> 1000]\<rparr>"
          "''BTCUSDT''" 1005 1006 True]
  by (simp add: empty_monitor_def)

text \<open>
  Claim C2. From the empty monitor with threshold 0.5, the ratios 0.3, 0.6, 0.6, 0.6,
  0.2, 0.55 give the decisions Suppress, Alert, Suppress, Suppress, Suppress, Alert, when
  the third and the fourth arrive less than 30 seconds after the second and the
  notification of the second was sent.
\<close>

theorem gate_sequence:
  assumes window3: "t3 - t2 < 30" and window4: "t4 - t2 < 30"
    and delivered2: "fst (send_notification (telegram_notifier empty_monitor) symbol 0.6 s2 d2)"
  shows "run_gate empty_monitor symbol 0.5
           [(0.3, t1, s1, d1), (0.6, t2, s2, d2), (0.6, t3, s3, d3),
            (0.6, t4, s4, d4), (0.2, t5, s5, d5), (0.55, t6, s6, d6)]
         = [Suppress, Alert, Suppress, Suppress, Suppress, Alert]"
proof -
  define m1 where "m1 = empty_monitor\<lparr>last_imbalance_ratios := [symbol \<mapsto> 0.3]\<rparr>"
  define n2 where "n2 = snd (send_notification (telegram_notifier empty_monitor) symbol 0.6 s2 d2)"
  define m2 where "m2 = m1\<lparr>last_notification_time := [symbol \<mapsto> t2],
                           last_imbalance_ratios := [symbol \<mapsto> 0.6],
                           telegram_notifier := n2\<rparr>"
  define m5 where "m5 = m2\<lparr>last_imbalance_ratios := [symbol \<mapsto> 0.2]\<rparr>"
  have step1: "alert_gate empty_monitor symbol 0.3 0.5 t1 s1 d1 = (Suppress, m1)"
    by (simp add: gate_under m1_def empty_monitor_def)
  have step2: "alert_gate m1 symbol 0.6 0.5 t2 s2 d2 = (Alert, m2)"
    using delivered2
    by (subst gate_alert) (simp_all add: m1_def m2_def n2_def empty_monitor_def)
  have step3: "alert_gate m2 symbol 0.6 0.5 t3 s3 d3 = (Suppress, m2)"
    using window3 by (intro gate_frozen [where lv = "0.6"]) (simp_all add: m2_def)
  have step4: "alert_gate m2 symbol 0.6 0.5 t4 s4 d4 = (Suppress, m2)"
    using window4 by (intro gate_frozen [where lv = "0.6"]) (simp_all add: m2_def)
  have step5: "alert_gate m2 symbol 0.2 0.5 t5 s5 d5 = (Suppress, m5)"
    by (simp add: gate_under m5_def m2_def)
  have step6: "fst (alert_gate m5 symbol 0.55 0.5 t6 s6 d6) = Alert"
    by (subst gate_alert) (simp_all add: m5_def)
  then obtain m6 where step6': "alert_gate m5 symbol 0.55 0.5 t6 s6 d6 = (Alert, m6)"
    by (metis prod.collapse)
  show ?thesis
    by (simp only: run_gate.simps step1 step2 step3 step4 step5 step6' prod.case)
qed

theorem gate_sequence_witness:
  "run_gate empty_monitor ''BTCUSDT'' 0.5
     [(0.3, 1000, 1000, True), (0.6, 1001, 1001, True), (0.6, 1002, 1002, True),
      (0.6, 1003, 1003, True), (0.2, 1004, 1004, True), (0.55, 1005, 1005, True)]
   = [Suppress, Alert, Suppress, Suppress, Suppress, Alert]"
  by (rule gate_sequence)
     (simp_all add: send_notification_def notification_cooldown_def empty_monitor_def)

text \<open>
  Claim C3. A send that is not delivered returns \<open>False\<close> and leaves the notifier as it
  was; and when \<^verbatim>\<open>send_notification\<close> returns \<open>False\<close> to the monitor, the monitor is
  unchanged: last ratio, time of last notification and the notifier's two dictionaries.
\<close>

theorem failed_send_keeps_state:
  "(\<not> delivered \<longrightarrow> send_notification n symbol ratio send_time delivered = (False, n))
   \<and> (\<not> fst (send_notification (telegram_notifier m) symbol ratio send_time delivered) \<longrightarrow>
        fst (alert_gate m symbol ratio threshold current_time send_time delivered) = Alert \<longrightarrow>
        snd (alert_gate m symbol ratio threshold current_time send_time delivered) = m)"
proof (intro conjI impI)
  assume "\<not> delivered"
  then show "send_notification n symbol ratio send_time delivered = (False, n)"
    by (simp add: send_notification_def Let_def)
next
  assume failed: "\<not> fst (send_notification (telegram_notifier m) symbol ratio send_time delivered)"
    and alert: "fst (alert_gate m symbol ratio threshold current_time send_time delivered) = Alert"
  have keep: "snd (send_notification (telegram_notifier m) symbol ratio send_time delivered)
           = telegram_notifier m"
    using failed by (subst send_notification_cases) simp
  show "snd (alert_gate m symbol ratio threshold current_time send_time delivered) = m"
  proof (cases "\<bar>ratio\<bar> > \<bar>threshold\<bar>")
    case False
    with alert show ?thesis by (simp add: gate_under)
  next
    case exceeds: True
    show ?thesis
    proof (cases "(case last_imbalance_ratios m symbol of None \<Rightarrow> True
                   | Some lv \<Rightarrow> \<bar>ratio - lv\<bar> > 0.0001)
        \<or> current_time - (case last_notification_time m symbol of None \<Rightarrow> 0 | Some t \<Rightarrow> t) \<ge> 30")
      case True
      show ?thesis
        using failed keep by (simp add: gate_alert [OF exceeds True])
    next
      case False
      then obtain lv where "last_imbalance_ratios m symbol = Some lv"
        "\<not> \<bar>ratio - lv\<bar> > 0.0001"
        "\<not> current_time - (case last_notification_time m symbol of None \<Rightarrow> 0 | Some t \<Rightarrow> t) \<ge> 30"
        by (auto split: option.splits)
      from gate_frozen [OF exceeds this] show ?thesis by simp
    qed
  qed
qed

theorem failed_send_keeps_state_witness:
  "send_notification (telegram_notifier empty_monitor) ''BTCUSDT'' 0.6 1001 False
     = (False, telegram_notifier empty_monitor)
   \<and> alert_gate (empty_monitor\<lparr>last_imbalance_ratios := [''BTCUSDT'' \<mapsto> 0.3]\<rparr>)
        ''BTCUSDT'' 0.6 0.5 1000 1001 False
     = (Alert, empty_monitor\<lparr>last_imbalance_ratios := [''BTCUSDT'' \<mapsto> 0.3]\<rparr>)"
proof -
  let ?m = "empty_monitor\<lparr>last_imbalance_ratios := [''BTCUSDT'' \<mapsto> 0.3]\<rparr>"
  have failed: "\<not> fst (send_notification (telegram_notifier ?m) ''BTCUSDT'' 0.6 1001 False)"
    by (simp add: send_notification_def Let_def)
  have alert: "fst (alert_gate ?m ''BTCUSDT'' 0.6 0.5 1000 1001 False) = Alert"
    by (subst gate_alert) (simp_all add: empty_monitor_def)
  from failed_send_keeps_state
         [of False "telegram_notifier empty_monitor" "''BTCUSDT''" "0.6" 1001 ?m "0.5" 1000]
       failed alert
  show ?thesis by (simp add: prod_eq_iff)
qed

text \<open>
  \<^verbatim>\<open>_handle_orderbook_update\<close> reaches the decision exactly on complete data with a
  ratio, and then decides as lines 94-152 do.
\<close>

lemma handle_orderbook_update_incomplete:
  "data_symbol data = [] \<or> data_bids data = [] \<or> data_asks data = [] \<Longrightarrow>
     handle_orderbook_update m data threshold top_n current_time send_time delivered = (None, m)"
  by (simp add: handle_orderbook_update_def parse_orderbook_data_def)

lemma handle_orderbook_update_decides:
  assumes "data_symbol data \<noteq> []" "data_bids data \<noteq> []" "data_asks data \<noteq> []"
    and "calculate_imbalance_ratio (data_bids data) (data_asks data) top_n = Some r"
  shows "handle_orderbook_update m data threshold top_n current_time send_time delivered =
     (Some (fst (alert_gate m (data_symbol data) r threshold current_time send_time delivered)),
      snd (alert_gate m (data_symbol data) r threshold current_time send_time delivered))"
  using assms
  by (simp add: handle_orderbook_update_def parse_orderbook_data_def process_orderbook_def
        split: prod.splits)

end
